theory Spec2Isabelle
  imports Complex_Main "HOL-Library.List_Lexorder" "HOL-Library.Product_Lexorder"
begin

section \<open>Values of the ledger\<close>

text \<open>
  A Python \<open>str\<close> is a sequence of Unicode code points; the literals of the source that
  name transaction sides, option types, statuses and cash-flow types are Chinese, so a
  string is modelled as the list of its code points. Amounts (prices, fees, capital) are
  modelled as exact rationals: the rounding of binary floating point is outside the model.
  A calendar date is modelled as a day number; the source compares ISO dates, whose
  textual order is the order of the days they denote. A nullable column is an \<open>option\<close>.
\<close>

type_synonym ustr = "nat list"
type_synonym date = nat

text \<open>Truthiness of a Python value, as used by \<open>if account:\<close>, \<open>x or 0\<close>.\<close>

definition truthy_str :: "ustr option \<Rightarrow> bool" where
  "truthy_str a = (case a of None \<Rightarrow> False | Some s \<Rightarrow> s \<noteq> [])"

definition or_zero :: "rat option \<Rightarrow> rat" where
  \<comment> \<open>\<open>x or 0\<close>: an absent value and the number 0 both give 0\<close>
  "or_zero x = (case x of None \<Rightarrow> 0 | Some v \<Rightarrow> v)"

definition unique :: "'a list \<Rightarrow> 'a list" where
  \<comment> \<open>the distinct elements in the order of their first occurrence, as the keys of a
      dictionary filled in list order and as \<open>Series.unique()\<close>\<close>
  "unique xs = rev (remdups (rev xs))"

subsection \<open>Literals of the source\<close>

definition BUY :: ustr where \<comment> \<open>U+4E70 U+5165\<close>
  "BUY = [20080, 20837]"
definition SELL :: ustr where \<comment> \<open>U+5356 U+51FA\<close>
  "SELL = [21334, 20986]"

definition STOCK_BUY :: ustr where "STOCK_BUY = [32929, 31080, 20080, 20837]"
definition STOCK_SELL :: ustr where "STOCK_SELL = [32929, 31080, 21334, 20986]"
definition COMMISSION :: ustr where "COMMISSION = [20323, 37329]"
definition DIVIDEND :: ustr where "DIVIDEND = [20998, 32418]"
definition PREMIUM_IN :: ustr where
  "PREMIUM_IN = [26399, 26435, 26435, 21033, 37329, 25910, 20837]"
definition PREMIUM_OUT :: ustr where
  "PREMIUM_OUT = [26399, 26435, 26435, 21033, 37329, 25903, 20986]"
definition OPTION_CLOSE :: ustr where "OPTION_CLOSE = [26399, 26435, 24179, 20179]"
definition INTEREST :: ustr where "INTEREST = [21033, 24687]"
definition DEPOSIT :: ustr where "DEPOSIT = [23384, 20837]"
definition WITHDRAWAL :: ustr where "WITHDRAWAL = [21462, 20986]"

definition SELL_CALL :: ustr where \<comment> \<open>U+5356 followed by Call\<close>
  "SELL_CALL = [21334, 67, 97, 108, 108]"
definition SELL_PUT :: ustr where \<comment> \<open>U+5356 followed by Put\<close>
  "SELL_PUT = [21334, 80, 117, 116]"
definition BUY_CALL :: ustr where "BUY_CALL = [20080, 67, 97, 108, 108]"
definition BUY_PUT :: ustr where "BUY_PUT = [20080, 80, 117, 116]"

definition OPEN :: ustr where \<comment> \<open>the status of a position still held\<close>
  "OPEN = [25345, 20179, 20013]"
definition CLOSED :: ustr where "CLOSED = [24050, 24179, 20179]"

section \<open>The ledger store (core/database.py)\<close>

record transaction =
  transaction_id :: nat
  transaction_date :: date
  t_account_name :: ustr
  t_stock_symbol :: ustr
  transaction_type :: ustr
  price :: rat
  shares :: int
  commission :: rat

record option_trade =
  option_id :: nat
  o_account_name :: ustr
  o_stock_symbol :: ustr
  option_type :: ustr
  strike_price :: rat
  premium_per_share :: rat
  contracts :: int
  open_date :: date
  close_date :: "date option"
  close_price_per_share :: "rat option"
  opening_fee :: rat
  closing_fee :: rat
  status :: ustr

record cash_flow =
  flow_id :: nat
  flow_date :: date
  c_account_name :: ustr
  flow_type :: ustr
  related_transaction_id :: "nat option"
  related_option_id :: "nat option"
  c_stock_symbol :: "ustr option"
  amount :: rat
  is_realized :: bool
  auto_generated :: bool

record account =
  account_name :: ustr
  total_capital :: rat
  cash_reserve :: rat
  conditional_reserve :: rat

record position_target =
  pt_stock_symbol :: ustr
  pt_account_name :: ustr
  target_type :: ustr
  target_percentage :: "rat option"
  target_amount :: "rat option"
  target_shares :: "int option"
  max_percentage :: "rat option"
  max_amount :: "rat option"
  max_shares :: "int option"
  priority :: int
  rebalance_threshold :: "rat option"
  is_active :: bool

record price_row =
  p_stock_symbol :: ustr
  price_date :: date
  close_price :: rat
  daily_return :: "real option"

text \<open>
  The store holds one list of rows per table, in the order a query returns them, and the
  last row id handed out for the cash-flow table. The free-text columns (notes,
  description) and the option greeks are not read by the computations below.
\<close>

record db =
  accounts :: "account list"
  transactions :: "transaction list"
  options_trades :: "option_trade list"
  cash_flows :: "cash_flow list"
  last_flow_id :: nat
  position_targets :: "position_target list"
  stock_price_history :: "price_row list"

definition in_range :: "date option \<Rightarrow> date option \<Rightarrow> date \<Rightarrow> bool" where
  "in_range start_date end_date d =
     ((case start_date of None \<Rightarrow> True | Some s \<Rightarrow> s \<le> d) \<and>
      (case end_date of None \<Rightarrow> True | Some e \<Rightarrow> d \<le> e))"

definition get_transactions :: "db \<Rightarrow> ustr option \<Rightarrow> transaction list" where
  "get_transactions d acc =
     filter (\<lambda>t. truthy_str acc \<longrightarrow> Some (t_account_name t) = acc) (transactions d)"

definition get_options_trades ::
  "db \<Rightarrow> ustr option \<Rightarrow> ustr option \<Rightarrow> ustr option \<Rightarrow> option_trade list" where
  "get_options_trades d acc symbol st =
     filter (\<lambda>opt. (truthy_str acc \<longrightarrow> Some (o_account_name opt) = acc) \<and>
                  (truthy_str symbol \<longrightarrow> Some (o_stock_symbol opt) = symbol) \<and>
                  (truthy_str st \<longrightarrow> Some (status opt) = st))
       (options_trades d)"

definition get_cash_flows ::
  "db \<Rightarrow> ustr option \<Rightarrow> date option \<Rightarrow> date option \<Rightarrow> cash_flow list" where
  "get_cash_flows d acc start_date end_date =
     filter (\<lambda>f. (truthy_str acc \<longrightarrow> Some (c_account_name f) = acc) \<and>
                in_range start_date end_date (flow_date f))
       (cash_flows d)"

definition get_accounts :: "db \<Rightarrow> account list" where
  "get_accounts d = accounts d"


definition add_cash_flow ::
  "db \<Rightarrow> date \<Rightarrow> ustr \<Rightarrow> ustr \<Rightarrow> rat \<Rightarrow> ustr option \<Rightarrow> nat option \<Rightarrow> nat option \<Rightarrow>
   bool \<Rightarrow> bool \<Rightarrow> nat \<times> db" where
  "add_cash_flow d fdate acc ftype amt symbol rel_trans rel_opt realized auto =
     (let fid = Suc (last_flow_id d);
          row = \<lparr>flow_id = fid, flow_date = fdate, c_account_name = acc, flow_type = ftype,
                 related_transaction_id = rel_trans, related_option_id = rel_opt,
                 c_stock_symbol = symbol, amount = amt, is_realized = realized,
                 auto_generated = auto\<rparr>
      in (fid, d\<lparr>cash_flows := cash_flows d @ [row], last_flow_id := fid\<rparr>))"

section \<open>Cash flows (core/cash_flow.py)\<close>

subsection \<open>auto_generate_from_transaction\<close>

text \<open>
  The transaction is looked up by id; an unknown id returns \<open>None\<close> and leaves the store
  as it is. Otherwise one row is written for the trade, with the commission inside its
  amount, and, when the commission is positive, a second row of type commission.
\<close>

definition auto_generate_from_transaction :: "db \<Rightarrow> nat \<Rightarrow> nat option \<times> db" where
  "auto_generate_from_transaction d tid =
     (case filter (\<lambda>t. transaction_id t = tid) (transactions d) of
        [] \<Rightarrow> (None, d)
      | tr # _ \<Rightarrow>
          (let total_amount = price tr * of_int (shares tr);
               (ftype, amt) =
                 (if transaction_type tr = BUY
                  then (STOCK_BUY, - (total_amount + commission tr))
                  else (STOCK_SELL, total_amount - commission tr));
               (fid, d1) = add_cash_flow d (transaction_date tr) (t_account_name tr)
                             ftype amt (Some (t_stock_symbol tr)) (Some tid) None True True;
               d2 = (if commission tr > 0
                     then snd (add_cash_flow d1 (transaction_date tr) (t_account_name tr)
                                 COMMISSION (- commission tr) (Some (t_stock_symbol tr))
                                 (Some tid) None True True)
                     else d1)
           in (Some fid, d2)))"

definition generated_rows :: "db \<Rightarrow> db \<Rightarrow> cash_flow list" where
  \<comment> \<open>the rows a call appended to the cash-flow table\<close>
  "generated_rows d d' = drop (length (cash_flows d)) (cash_flows d')"

definition buy_10_at_20 :: transaction where
  "buy_10_at_20 = \<lparr>transaction_id = 1, transaction_date = 0, t_account_name = [65],
     t_stock_symbol = [78], transaction_type = BUY, price = 20, shares = 10, commission = 5\<rparr>"

definition ledger_one_buy :: db where
  "ledger_one_buy = \<lparr>accounts = [], transactions = [buy_10_at_20], options_trades = [],
     cash_flows = [], last_flow_id = 0,
     position_targets = [], stock_price_history = []\<rparr>"

subsection \<open>get_cash_flow_statement\<close>

definition operating_types :: "ustr list" where
  "operating_types = [DIVIDEND, PREMIUM_IN, PREMIUM_OUT, OPTION_CLOSE, INTEREST]"
definition investing_types :: "ustr list" where
  "investing_types = [STOCK_BUY, STOCK_SELL]"
definition financing_types :: "ustr list" where
  "financing_types = [DEPOSIT, WITHDRAWAL]"

definition enumerated_types :: "ustr list" where
  "enumerated_types = operating_types @ investing_types @ financing_types @ [COMMISSION]"

definition amount_sum :: "cash_flow list \<Rightarrow> rat" where
  "amount_sum fs = sum_list (map amount fs)"

definition isin :: "ustr list \<Rightarrow> cash_flow list \<Rightarrow> cash_flow list" where
  \<comment> \<open>\<open>flows[flows['flow_type'].isin(types)]\<close>\<close>
  "isin types fs = filter (\<lambda>f. flow_type f \<in> set types) fs"

definition groupby_sum :: "cash_flow list \<Rightarrow> ustr \<rightharpoonup> rat" where
  \<comment> \<open>\<open>groupby('flow_type')['amount'].sum().to_dict()\<close>: one key per type that occurs\<close>
  "groupby_sum fs t =
     (let g = filter (\<lambda>f. flow_type f = t) fs in if g = [] then None else Some (amount_sum g))"

record bucket =
  detail :: "ustr \<rightharpoonup> rat"
  subtotal :: rat

text \<open>
  The returned dictionary has two shapes: without any row the three buckets are empty
  dictionaries and there is no commission entry; otherwise each bucket holds its detail
  and subtotal. An empty dictionary and a missing entry are \<open>None\<close>.
\<close>

record statement =
  operating :: "bucket option"
  investing :: "bucket option"
  financing :: "bucket option"
  commission_total :: "rat option"
  net :: rat

definition get_cash_flow_statement ::
  "db \<Rightarrow> ustr option \<Rightarrow> date option \<Rightarrow> date option \<Rightarrow> statement" where
  "get_cash_flow_statement d acc start_date end_date =
     (let flows = get_cash_flows d acc start_date end_date in
      if flows = [] then
        \<lparr>operating = None, investing = None, financing = None, commission_total = None,
         net = 0\<rparr>
      else
        (let operating_rows = isin operating_types flows;
             operating_total = amount_sum operating_rows;
             investing_rows = isin investing_types flows;
             investing_total = amount_sum investing_rows;
             financing_rows = isin financing_types flows;
             financing_total = amount_sum financing_rows;
             commissions = filter (\<lambda>f. flow_type f = COMMISSION) flows;
             comm_total = amount_sum commissions
         in \<lparr>operating = Some \<lparr>detail = groupby_sum operating_rows, subtotal = operating_total\<rparr>,
              investing = Some \<lparr>detail = groupby_sum investing_rows, subtotal = investing_total\<rparr>,
              financing = Some \<lparr>detail = groupby_sum financing_rows, subtotal = financing_total\<rparr>,
              commission_total = Some comm_total,
              net = operating_total + investing_total + financing_total + comm_total\<rparr>))"

text \<open>A ledger with a deposit, a row of a type outside the enumerations, and a stock buy.\<close>

definition flow_row :: "nat \<Rightarrow> ustr \<Rightarrow> rat \<Rightarrow> cash_flow" where
  "flow_row i ftype amt = \<lparr>flow_id = i, flow_date = 0, c_account_name = [65], flow_type = ftype,
     related_transaction_id = None, related_option_id = None, c_stock_symbol = None,
     amount = amt, is_realized = True, auto_generated = False\<rparr>"

definition OTHER :: ustr where \<comment> \<open>the text other, a type no bucket lists\<close>
  "OTHER = [111, 116, 104, 101, 114]"

definition ledger_flows :: "cash_flow list \<Rightarrow> db" where
  "ledger_flows fs = \<lparr>accounts = [], transactions = [], options_trades = [],
     cash_flows = fs, last_flow_id = length fs,
     position_targets = [], stock_price_history = []\<rparr>"

section \<open>The calculation engine (core/calculator.py)\<close>

subsection \<open>calculate_stock_summary\<close>

text \<open>
  One row per (symbol, account) group with a positive net share count. The columns are the
  ones the source names: current shares, net cash flow, traded shares, commission, average
  cost, total invested, shares locked by open sold calls, available shares.
\<close>

record stock_row =
  s_symbol :: ustr
  s_account :: ustr
  current_shares :: int
  net_cash_flow :: rat
  total_traded_shares :: int
  total_commission :: rat
  avg_cost :: rat
  total_invested :: rat
  locked_shares :: int
  available_shares :: int

definition signed_shares :: "transaction \<Rightarrow> int" where
  "signed_shares x = (if transaction_type x = BUY then shares x else - shares x)"

definition signed_amount :: "transaction \<Rightarrow> rat" where
  "signed_amount x =
     (if transaction_type x = BUY
      then - (price x * of_int (shares x) + commission x)
      else price x * of_int (shares x) - commission x)"

definition group_key :: "transaction \<Rightarrow> ustr \<times> ustr" where
  "group_key x = (t_stock_symbol x, t_account_name x)"

definition group_keys :: "transaction list \<Rightarrow> (ustr \<times> ustr) list" where
  \<comment> \<open>\<open>groupby\<close> yields each key once, in sorted order\<close>
  "group_keys txs = sort (remdups (map group_key txs))"

definition cc_locked :: "option_trade list \<Rightarrow> ustr \<times> ustr \<Rightarrow> int" where
  \<comment> \<open>contracts of the sold calls of a group, times 100; a group without one is filled with 0\<close>
  "cc_locked opts k =
     sum_list (map contracts
       (filter (\<lambda>opt. option_type opt = SELL_CALL \<and> (o_stock_symbol opt, o_account_name opt) = k)
          opts)) * 100"

definition aggregate :: "transaction list \<Rightarrow> option_trade list \<Rightarrow> ustr \<times> ustr \<Rightarrow> stock_row" where
  "aggregate txs opts k =
     (let g = filter (\<lambda>x. group_key x = k) txs;
          cur = sum_list (map signed_shares g);
          cash = sum_list (map signed_amount g);
          avg = (if cur > 0 then \<bar>cash\<bar> / of_int cur else 0);
          locked = (if opts \<noteq> [] then cc_locked opts k else 0)
      in \<lparr>s_symbol = fst k, s_account = snd k, current_shares = cur, net_cash_flow = cash,
          total_traded_shares = sum_list (map shares g),
          total_commission = sum_list (map commission g),
          avg_cost = avg, total_invested = avg * of_int cur,
          locked_shares = locked, available_shares = cur - locked\<rparr>)"

definition calculate_stock_summary :: "db \<Rightarrow> ustr option \<Rightarrow> stock_row list" where
  "calculate_stock_summary d acc =
     (let txs = get_transactions d acc in
      if txs = [] then []
      else
        (let opts = get_options_trades d None None (Some OPEN)
         in filter (\<lambda>r. current_shares r > 0) (map (aggregate txs opts) (group_keys txs))))"

subsection \<open>calculate_options_summary\<close>

text \<open>
  The option rows with their derived columns: total premium, close amount, net profit,
  locked capital. The two calendar columns (days held, days left) read the clock and are
  not modelled.
\<close>

record option_row =
  trade :: option_trade
  total_premium :: rat
  close_amount :: rat
  net_pnl :: rat
  locked_capital :: rat

definition options_row :: "option_trade \<Rightarrow> option_row" where
  "options_row x =
     (let premium = premium_per_share x * of_int (contracts x) * 100;
          closing = (case close_price_per_share x of
                       Some c \<Rightarrow> c * of_int (contracts x) * 100
                     | None \<Rightarrow> 0);
          pnl = (if option_type x \<in> set [SELL_CALL, SELL_PUT]
                 then premium - closing - opening_fee x - closing_fee x
                 else closing - premium - opening_fee x - closing_fee x);
          locked = (if option_type x = SELL_PUT \<and> status x = OPEN
                    then strike_price x * of_int (contracts x) * 100
                    else 0)
      in \<lparr>trade = x, total_premium = premium, close_amount = closing, net_pnl = pnl,
          locked_capital = locked\<rparr>)"

definition calculate_options_summary :: "db \<Rightarrow> ustr option \<Rightarrow> option_row list" where
  "calculate_options_summary d acc = map options_row (get_options_trades d acc None None)"

subsection \<open>calculate_account_overview\<close>

text \<open>
  The price lookup is an external capability: it is a parameter, a function from the
  symbols asked for to the dictionary of prices (an association list), or to \<open>None\<close> when the lookup raises
  (the source catches every exception of the block and falls back to the cost basis).
  A missing account gives \<open>None\<close>, the empty dictionary of the source.
\<close>

type_synonym prices = "(ustr \<times> rat) list"
type_synonym price_lookup = "ustr list \<Rightarrow> prices option"

record overview =
  ov_total_capital :: rat
  ov_cash_reserve :: rat
  ov_conditional_reserve :: rat
  stock_investment :: rat
  locked_cash :: rat
  option_premium_received :: rat
  available_cash :: rat
  investable_capital :: rat
  available_for_investment :: rat
  stock_position_pct :: rat
  option_locked_pct :: rat
  total_used_pct :: rat
  available_total :: rat
  holding_count :: nat
  open_option_count :: nat
  current_total_assets :: rat
  net_cash_inflow :: rat
  total_pnl :: rat
  pnl_ratio :: rat

definition market_value :: "prices \<Rightarrow> stock_row \<Rightarrow> rat" where
  \<comment> \<open>one step of the valuation loop: a symbol without a (non-zero) price counts at cost\<close>
  "market_value current_prices stock =
     (case map_of current_prices (s_symbol stock) of
        Some p \<Rightarrow> if p \<noteq> 0 then p * of_int (current_shares stock) else total_invested stock
      | None \<Rightarrow> total_invested stock)"

definition calculate_account_overview :: "db \<Rightarrow> price_lookup \<Rightarrow> ustr \<Rightarrow> overview option" where
  "calculate_account_overview d batch_get_prices name =
     (case filter (\<lambda>a. account_name a = name) (get_accounts d) of
        [] \<Rightarrow> None
      | account_info # _ \<Rightarrow>
          (let capital = total_capital account_info;
               reserve = cash_reserve account_info;
               conditional = conditional_reserve account_info;
               stocks = calculate_stock_summary d (Some name);
               invested = sum_list (map total_invested stocks);
               options = calculate_options_summary d (Some name);
               open_options = filter (\<lambda>r. status (trade r) = OPEN) options;
               locked = sum_list (map locked_capital open_options);
               premium_received =
                 sum_list (map total_premium
                   (filter (\<lambda>r. option_type (trade r) \<in> set [SELL_CALL, SELL_PUT]) open_options));
               used_capital = invested + locked;
               available = capital - used_capital;
               investable = capital - reserve;
               flows = get_cash_flows d (Some name) None None;
               net_flow = sum_list (map amount
                   (filter (\<lambda>f. flow_type f \<in> set [INTEREST, DEPOSIT, WITHDRAWAL]) flows));
               stock_value =
                 (if stocks = [] then 0
                  else (case batch_get_prices (unique (map s_symbol stocks)) of
                          Some current_prices \<Rightarrow> sum_list (map (market_value current_prices) stocks)
                        | None \<Rightarrow> invested));
               assets = stock_value + available + locked;
               pnl = assets - capital - net_flow;
               base_capital = capital + net_flow
           in Some \<lparr>ov_total_capital = capital, ov_cash_reserve = reserve,
                ov_conditional_reserve = conditional, stock_investment = invested,
                locked_cash = locked, option_premium_received = premium_received,
                available_cash = available, investable_capital = investable,
                available_for_investment = investable - used_capital,
                stock_position_pct = (if capital > 0 then invested / capital * 100 else 0),
                option_locked_pct = (if capital > 0 then locked / capital * 100 else 0),
                total_used_pct = (if capital > 0 then (invested + locked) / capital * 100 else 0),
                available_total = available + conditional,
                holding_count = length stocks, open_option_count = length open_options,
                current_total_assets = assets, net_cash_inflow = net_flow, total_pnl = pnl,
                pnl_ratio = (if base_capital > 0 then pnl / base_capital * 100 else 0)\<rparr>))"

subsection \<open>calculate_realized_pnl\<close>

definition closed_in :: "date option \<Rightarrow> date option \<Rightarrow> option_trade \<Rightarrow> bool" where
  \<comment> \<open>the two date filters; a row without a close date passes neither comparison\<close>
  "closed_in start_date end_date x =
     ((case start_date of None \<Rightarrow> True
       | Some s \<Rightarrow> (case close_date x of None \<Rightarrow> False | Some c \<Rightarrow> s \<le> c)) \<and>
      (case end_date of None \<Rightarrow> True
       | Some e \<Rightarrow> (case close_date x of None \<Rightarrow> False | Some c \<Rightarrow> c \<le> e)))"

definition realized_pnl :: "option_trade \<Rightarrow> rat" where
  \<comment> \<open>the body of the loop over the closed options\<close>
  "realized_pnl opt =
     (let premium = premium_per_share opt * of_int (contracts opt) * 100;
          close_amount = or_zero (close_price_per_share opt) * of_int (contracts opt) * 100;
          fees = opening_fee opt + closing_fee opt
      in if option_type opt \<in> set [SELL_CALL, SELL_PUT]
         then premium - close_amount - fees
         else close_amount - premium - fees)"

record realized =
  option_realized :: rat
  stock_realized :: rat
  total_realized :: rat

definition calculate_realized_pnl ::
  "db \<Rightarrow> ustr option \<Rightarrow> ustr option \<Rightarrow> date option \<Rightarrow> date option \<Rightarrow> realized" where
  "calculate_realized_pnl d acc symbol start_date end_date =
     (let options = get_options_trades d acc symbol None;
          closed_options = filter (\<lambda>x. status x \<noteq> OPEN) options;
          closed_options = filter (closed_in start_date end_date) closed_options;
          total = sum_list (map realized_pnl closed_options)
      in \<lparr>option_realized = total, stock_realized = 0, total_realized = total\<rparr>)"

section \<open>Attribution (core/attribution.py)\<close>

definition strategy_pnl :: "option_trade \<Rightarrow> rat" where
  \<comment> \<open>the body of the loop of \<open>_calculate_strategy_alpha\<close>\<close>
  "strategy_pnl opt =
     (let premium = premium_per_share opt * of_int (contracts opt) * 100;
          close_amount = or_zero (close_price_per_share opt) * of_int (contracts opt) * 100;
          fees = opening_fee opt + closing_fee opt
      in if option_type opt \<in> set [SELL_CALL, SELL_PUT]
         then premium - close_amount - fees
         else close_amount - premium - fees)"

definition calculate_strategy_alpha :: "db \<Rightarrow> ustr option \<Rightarrow> date \<Rightarrow> date \<Rightarrow> rat" where
  "calculate_strategy_alpha d acc start_date end_date =
     (let options = get_options_trades d acc None None in
      if options = [] then 0
      else
        (let closed = filter (\<lambda>x. status x \<noteq> OPEN \<and>
                                  closed_in (Some start_date) (Some end_date) x) options in
         if closed = [] then 0
         else
           (let total = sum_list (map strategy_pnl closed) in
            case filter (\<lambda>a. Some (account_name a) = acc) (get_accounts d) of
              [] \<Rightarrow> 0
            | account_info # _ \<Rightarrow>
                if total_capital account_info > 0 then total / total_capital account_info
                else 0)))"

subsection \<open>The realized profit of a closed option, in the words of the specification\<close>


section \<open>Example ledgers\<close>

definition acct :: "ustr \<Rightarrow> rat \<Rightarrow> account" where
  "acct name capital = \<lparr>account_name = name, total_capital = capital, cash_reserve = 0,
     conditional_reserve = 0\<rparr>"

definition ledger_withdrawn :: db where
  \<comment> \<open>capital 1000 and a withdrawal of 2000: the base capital is negative\<close>
  "ledger_withdrawn = \<lparr>accounts = [acct [65] 1000], transactions = [], options_trades = [],
     cash_flows = [flow_row 1 WITHDRAWAL (- 2000)], last_flow_id = 1,
     position_targets = [], stock_price_history = []\<rparr>"

definition ledger_deposited :: db where
  "ledger_deposited = \<lparr>accounts = [acct [65] 1000], transactions = [], options_trades = [],
     cash_flows = [flow_row 1 DEPOSIT 1000], last_flow_id = 1,
     position_targets = [], stock_price_history = []\<rparr>"

definition no_prices :: price_lookup where
  "no_prices symbols = None"

definition opt_trade :: "nat \<Rightarrow> ustr \<Rightarrow> ustr \<Rightarrow> rat \<Rightarrow> int \<Rightarrow> ustr \<Rightarrow> option_trade" where
  "opt_trade i acc ty strike n st = \<lparr>option_id = i, o_account_name = acc, o_stock_symbol = [78],
     option_type = ty, strike_price = strike, premium_per_share = 1, contracts = n,
     open_date = 0, close_date = None, close_price_per_share = None, opening_fee = 0,
     closing_fee = 0, status = st\<rparr>"

definition ledger_puts :: db where
  \<comment> \<open>account A: an open sold put (strike 50, 2 contracts), an open sold call, a closed
      sold put; account B: an open sold put\<close>
  "ledger_puts = \<lparr>accounts = [acct [65] 150000, acct [66] 1000], transactions = [],
     options_trades = [opt_trade 1 [65] SELL_PUT 50 2 OPEN, opt_trade 2 [65] SELL_CALL 70 3 OPEN,
        opt_trade 3 [65] SELL_PUT 40 1 CLOSED, opt_trade 4 [66] SELL_PUT 30 1 OPEN],
     cash_flows = [], last_flow_id = 0,
     position_targets = [], stock_price_history = []\<rparr>"



section \<open>Position targets (decision/position_manager.py)\<close>


datatype error = LookupFailed | ZeroDivisionError | KeyError













section \<open>Correlation (core/correlation.py)\<close>

text \<open>
  A correlation matrix is a table labelled by symbols on both axes; its labels are the
  list of columns, and an entry is a number or NaN (\<open>None\<close>). Correlations, weights and
  returns are real numbers. \<open>loc\<close> is the labelled lookup, which raises for a label the
  matrix does not have.
\<close>

record corr_matrix =
  m_columns :: "ustr list"
  m_entry :: "ustr \<Rightarrow> ustr \<Rightarrow> real option"

definition loc :: "corr_matrix \<Rightarrow> ustr \<Rightarrow> ustr \<Rightarrow> error + real option" where
  "loc m a b =
     (if a \<in> set (m_columns m) \<and> b \<in> set (m_columns m) then Inr (m_entry m a b)
      else Inl KeyError)"

definition mean_opt :: "real list \<Rightarrow> real option" where
  \<comment> \<open>the mean of the values that are not NaN; NaN when there is none\<close>
  "mean_opt xs = (if xs = [] then None else Some (sum_list xs / real (length xs)))"

fun col_means :: "(ustr \<Rightarrow> ustr \<Rightarrow> real option) \<Rightarrow> ustr list \<Rightarrow> ustr list \<Rightarrow> real option list" where
  "col_means e seen [] = []"
| "col_means e seen (b # rest) =
     mean_opt (List.map_filter (\<lambda>a. e a b) seen) # col_means e (seen @ [b]) rest"

definition triu_mean :: "(ustr \<Rightarrow> ustr \<Rightarrow> real option) \<Rightarrow> ustr list \<Rightarrow> real option" where
  \<comment> \<open>\<open>frame.where(triu(k=1)).mean().mean()\<close>: the mean, over the columns, of the mean of
      the entries strictly above the diagonal\<close>
  "triu_mean e ls = mean_opt (List.map_filter id (col_means e [] ls))"

subsection \<open>calculate_correlation_matrix\<close>








record corr_stats =
  max_correlation :: "real option"
  min_correlation :: "real option"
  avg_correlation :: "real option"
  lookback_period :: int
  symbols :: "ustr list"


subsection \<open>identify_correlation_clusters\<close>

record cluster =
  c_symbols :: "ustr list"
  c_avg_correlation :: "real option"
  c_size :: nat

text \<open>
  The inner loop: a symbol at another position that is not yet visited and whose
  correlation with the seed is at least the threshold in absolute value joins the cluster
  and is marked. Both labels are columns of the matrix, so the lookup finds them; a NaN
  entry fails the comparison.
\<close>

definition absorb ::
  "corr_matrix \<Rightarrow> real \<Rightarrow> nat \<Rightarrow> ustr \<Rightarrow> nat \<times> ustr \<Rightarrow> ustr list \<times> ustr set \<Rightarrow> ustr list \<times> ustr set" where
  "absorb m thr i sym1 = (\<lambda>(j, sym2) (cl, visited).
     if i \<noteq> j \<and> sym2 \<notin> visited then
       (case m_entry m sym1 sym2 of
          Some c \<Rightarrow> if thr \<le> \<bar>c\<bar> then (cl @ [sym2], insert sym2 visited) else (cl, visited)
        | None \<Rightarrow> (cl, visited))
     else (cl, visited))"

definition grow ::
  "corr_matrix \<Rightarrow> real \<Rightarrow> nat \<times> ustr \<Rightarrow> cluster list \<times> ustr set \<Rightarrow> cluster list \<times> ustr set" where
  \<comment> \<open>one round of the outer loop\<close>
  "grow m thr = (\<lambda>(i, sym1) (clusters, visited).
     if sym1 \<in> visited then (clusters, visited)
     else
       (let (cl, visited') = fold (absorb m thr i sym1) (enumerate 0 (m_columns m))
                                ([sym1], insert sym1 visited)
        in if length cl > 1
           then (clusters @ [\<lparr>c_symbols = cl, c_avg_correlation = triu_mean (m_entry m) cl,
                               c_size = length cl\<rparr>], visited')
           else (clusters, visited')))"

definition identify_correlation_clusters :: "corr_matrix option \<Rightarrow> real \<Rightarrow> cluster list" where
  "identify_correlation_clusters corr thr =
     (case corr of
        None \<Rightarrow> []
      | Some m \<Rightarrow> fst (fold (grow m thr) (enumerate 0 (m_columns m)) ([], {})))"

text \<open>
  The invariants of the two loops. Inner loop, started with the visited set v: the cluster
  has no repetition, none of its members was visited before, the visited set has grown by
  exactly the members, and every member is a column. Outer loop: no symbol occurs twice
  in the clusters emitted so far, every such symbol is visited, and every cluster has at
  least two members, all of them columns.
\<close>

definition absorbed :: "ustr set \<Rightarrow> ustr set \<Rightarrow> ustr list \<times> ustr set \<Rightarrow> bool" where
  "absorbed cols v = (\<lambda>(cl, vis). distinct cl \<and> set cl \<inter> v = {} \<and> vis = v \<union> set cl \<and> set cl \<subseteq> cols)"

definition clustered :: "ustr set \<Rightarrow> cluster list \<times> ustr set \<Rightarrow> bool" where
  "clustered cols = (\<lambda>(clusters, visited).
     distinct (concat (map c_symbols clusters)) \<and>
     set (concat (map c_symbols clusters)) \<subseteq> visited \<and>
     (\<forall>c \<in> set clusters. 2 \<le> length (c_symbols c) \<and> c_size c = length (c_symbols c) \<and>
        set (c_symbols c) \<subseteq> cols))"

subsection \<open>calculate_effective_n\<close>

fun pairs :: "'a list \<Rightarrow> ('a \<times> 'a) list" where
  \<comment> \<open>the pairs of positions i < j, in the order of the two loops\<close>
  "pairs [] = []"
| "pairs (x # xs) = map (Pair x) xs @ pairs xs"

fun accumulate ::
  "corr_matrix \<Rightarrow> (ustr \<Rightarrow> real) \<Rightarrow> (ustr \<times> ustr) list \<Rightarrow> real option \<times> real \<Rightarrow>
   error + (real option \<times> real)" where
  "accumulate m wt [] acc = Inr acc"
| "accumulate m wt ((a, b) # ps) (weighted_corr, total_weight) =
     (let w = wt a * wt b in
      case loc m a b of
        Inl e \<Rightarrow> Inl e
      | Inr c \<Rightarrow>
          accumulate m wt ps
            (case (weighted_corr, c) of
               (Some s, Some v) \<Rightarrow> Some (s + w * \<bar>v\<bar>)
             | _ \<Rightarrow> None,
             total_weight + w))"

definition calculate_effective_n ::
  "ustr list \<Rightarrow> corr_matrix option \<Rightarrow> (ustr \<times> real) list option \<Rightarrow> error + real" where
  "calculate_effective_n holdings corr weights =
     (let n = length holdings in
      if n = 0 then Inr 0
      else
        (let wts = (case weights of
                      None \<Rightarrow> map (\<lambda>s. (s, 1 / real n)) (unique holdings)
                    | Some w \<Rightarrow> w);
             hhi = sum_list (map (\<lambda>(s, w). w\<^sup>2) wts);
             basic_effective_n = (if hhi > 0 then 1 / hhi else real n);
             wt = (\<lambda>s. case map_of wts s of None \<Rightarrow> 0 | Some w \<Rightarrow> w)
         in case corr of
              None \<Rightarrow> Inr (max 1 basic_effective_n)
            | Some m \<Rightarrow>
                (case accumulate m wt (pairs holdings) (Some 0, 0) of
                   Inl e \<Rightarrow> Inl e
                 | Inr (weighted_corr, total_weight) \<Rightarrow>
                     (let adjusted =
                            (if total_weight > 0
                             then map_option (\<lambda>s. basic_effective_n * (1 - s / total_weight))
                                    weighted_corr
                             else Some basic_effective_n)
                      in Inr (case adjusted of None \<Rightarrow> 1 | Some a \<Rightarrow> max 1 a)))))"

subsection \<open>calculate_diversification_score\<close>

definition NO_HOLDINGS :: ustr where \<comment> \<open>the rating of an empty list of holdings\<close>
  "NO_HOLDINGS = [26080, 25345, 20179]"
definition EXCELLENT :: ustr where "EXCELLENT = [20248, 31168]"
definition GOOD :: ustr where "GOOD = [33391, 22909]"
definition FAIR :: ustr where "FAIR = [19968, 33324]"
definition POOR :: ustr where "POOR = [36739, 24046]"

text \<open>The texts of the recommendations are represented by constructors.\<close>

datatype recommendation =
  AddInvestments | MoreHoldings | LowerCorrelation | TooConcentrated | MoreSectors

record score_details =
  count_score :: int
  corr_score :: int
  effective_score :: int
  sector_score :: int
  holding_count_d :: nat
  avg_correlation_d :: "real option"
  effective_n :: real
  unique_sectors :: nat

record score_result =
  score :: int
  rating :: ustr
  details :: "score_details option"
  recommendations :: "recommendation list"

text \<open>The four sub-scores and the rating, in the order the source computes them.\<close>

definition count_score_of :: "nat \<Rightarrow> int" where
  "count_score_of n =
     (if n \<ge> 15 then 25 else if n \<ge> 10 then 20 else if n \<ge> 5 then 15
      else if n \<ge> 3 then 10 else 5)"

definition corr_score_of :: "real option \<Rightarrow> int" where
  \<comment> \<open>35 without a matrix; a NaN average fails every comparison and gives 35 too\<close>
  "corr_score_of avg_corr =
     (case avg_corr of
        Some a \<Rightarrow> if a \<ge> 8 / 10 then 5 else if a \<ge> 6 / 10 then 15
                  else if a \<ge> 4 / 10 then 25 else 35
      | None \<Rightarrow> 35)"

definition effective_score_of :: "real \<Rightarrow> int" where
  "effective_score_of effective_ratio =
     (if effective_ratio \<ge> 8 / 10 then 20 else if effective_ratio \<ge> 6 / 10 then 15
      else if effective_ratio \<ge> 4 / 10 then 10 else 5)"

definition sector_score_of :: "bool \<Rightarrow> nat \<Rightarrow> int" where
  \<comment> \<open>10 when no sector data is given\<close>
  "sector_score_of has_sector_data uniq =
     (if has_sector_data
      then (if uniq \<ge> 5 then 20 else if uniq \<ge> 3 then 15 else if uniq \<ge> 2 then 10 else 5)
      else 10)"

definition rating_of :: "int \<Rightarrow> ustr" where
  "rating_of total_score =
     (if total_score \<ge> 80 then EXCELLENT else if total_score \<ge> 60 then GOOD
      else if total_score \<ge> 40 then FAIR else POOR)"

definition calculate_diversification_score ::
  "ustr list \<Rightarrow> corr_matrix option \<Rightarrow> (ustr \<times> real) list option \<Rightarrow> (ustr \<times> ustr) list option \<Rightarrow>
   error + score_result" where
  "calculate_diversification_score holdings corr weights sector_data =
     (let n = length holdings in
      if n = 0 then
        Inr \<lparr>score = 0, rating = NO_HOLDINGS, details = None, recommendations = [AddInvestments]\<rparr>
      else
        (let cnt = count_score_of n;
             avg_corr = (case corr of
                           Some m \<Rightarrow> triu_mean (m_entry m) (m_columns m)
                         | None \<Rightarrow> None);
             cor = corr_score_of avg_corr
         in case calculate_effective_n holdings corr weights of
              Inl e \<Rightarrow> Inl e
            | Inr eff_n \<Rightarrow>
                (let effective_ratio = eff_n / real n;
                     eff = effective_score_of effective_ratio;
                     sectors = (case sector_data of
                                  None \<Rightarrow> []
                                | Some sd \<Rightarrow>
                                    List.map_filter
                                      (\<lambda>sym. case map_of sd sym of
                                                Some sec \<Rightarrow> if sec \<noteq> [] then Some sec else None
                                              | None \<Rightarrow> None)
                                      holdings);
                     has_sector_data = (case sector_data of None \<Rightarrow> False | Some sd \<Rightarrow> sd \<noteq> []);
                     uniq = (if has_sector_data then length (remdups sectors) else 0);
                     sec = sector_score_of has_sector_data uniq;
                     total_score = cnt + cor + eff + sec;
                     recs = (if n < 5 then [MoreHoldings] else []) @
                            (case avg_corr of
                               Some a \<Rightarrow> if a \<noteq> 0 \<and> a > 6 / 10 then [LowerCorrelation] else []
                             | None \<Rightarrow> []) @
                            (if effective_ratio < 1 / 2 then [TooConcentrated] else []) @
                            (if uniq < 3 then [MoreSectors] else [])
                 in Inr \<lparr>score = total_score, rating = rating_of total_score,
                         details = Some \<lparr>count_score = cnt, corr_score = cor, effective_score = eff,
                                         sector_score = sec, holding_count_d = n,
                                         avg_correlation_d = avg_corr, effective_n = eff_n,
                                         unique_sectors = uniq\<rparr>,
                         recommendations = recs\<rparr>)))"



definition corr3 :: corr_matrix where
  \<comment> \<open>three symbols: the first two correlate at 0.9, the third with neither\<close>
  "corr3 = \<lparr>m_columns = [[65], [66], [67]],
     m_entry = (\<lambda>a b. if a = b then Some 1
                        else if (a = [65] \<and> b = [66]) \<or> (a = [66] \<and> b = [65]) then Some (9 / 10)
                        else Some (1 / 10))\<rparr>"

definition corr2 :: corr_matrix where
  \<comment> \<open>a matrix of two symbols, correlated at 0.5\<close>
  "corr2 = \<lparr>m_columns = [[65], [66]],
     m_entry = (\<lambda>a b. if a = b then Some 1 else Some (1 / 2))\<rparr>"

section \<open>Results about cash flows\<close>

lemmas literal_defs =
  BUY_def SELL_def STOCK_BUY_def STOCK_SELL_def COMMISSION_def DIVIDEND_def
  PREMIUM_IN_def PREMIUM_OUT_def OPTION_CLOSE_def INTEREST_def DEPOSIT_def
  WITHDRAWAL_def SELL_CALL_def SELL_PUT_def BUY_CALL_def BUY_PUT_def OPEN_def CLOSED_def

lemma add_cash_flow_rows:
  "cash_flows (snd (add_cash_flow d fdate acc ftype amt symbol rt ro re au)) =
     cash_flows d @ [\<lparr>flow_id = Suc (last_flow_id d), flow_date = fdate, c_account_name = acc,
        flow_type = ftype, related_transaction_id = rt, related_option_id = ro,
        c_stock_symbol = symbol, amount = amt, is_realized = re, auto_generated = au\<rparr>]"
  by (simp add: add_cash_flow_def Let_def)

text \<open>
  C1. For the BUY of 10 shares at 20 with commission 5, the rows that
  auto_generate_from_transaction writes are the trade row of -205, which already holds
  the commission, and a commission row of -5: their amounts sum to -210, not to -205.
\<close>

theorem auto_generate_buy_10_at_20_sum:
  "map amount (generated_rows ledger_one_buy
      (snd (auto_generate_from_transaction ledger_one_buy 1))) = [- 205, - 5] \<and>
   amount_sum (generated_rows ledger_one_buy
      (snd (auto_generate_from_transaction ledger_one_buy 1))) = - 210"
  by (simp add: auto_generate_from_transaction_def ledger_one_buy_def buy_10_at_20_def
      add_cash_flow_def generated_rows_def amount_sum_def Let_def)

text \<open>In general, a BUY with a positive commission c is recorded as -(p * s + 2 * c).\<close>

lemma auto_generate_buy_rows:
  assumes "filter (\<lambda>t. transaction_id t = tid) (transactions d) = tr # rest"
    and "transaction_type tr = BUY"
  shows "map amount (generated_rows d (snd (auto_generate_from_transaction d tid))) =
           (if commission tr > 0
            then [- (price tr * of_int (shares tr) + commission tr), - commission tr]
            else [- (price tr * of_int (shares tr) + commission tr)])"
  using assms
  by (simp add: auto_generate_from_transaction_def add_cash_flow_def generated_rows_def Let_def)

lemma auto_generate_buy_sum:
  assumes "filter (\<lambda>t. transaction_id t = tid) (transactions d) = tr # rest"
    and "transaction_type tr = BUY" and "commission tr > 0"
  shows "amount_sum (generated_rows d (snd (auto_generate_from_transaction d tid))) =
           - (price tr * of_int (shares tr) + 2 * commission tr)"
  using auto_generate_buy_rows [OF assms(1,2)] assms(3)
  by (simp add: amount_sum_def)

lemma amount_sum_append: "amount_sum (xs @ ys) = amount_sum xs + amount_sum ys"
  by (simp add: amount_sum_def)

lemma amount_sum_Cons: "amount_sum (x # xs) = amount x + amount_sum xs"
  by (simp add: amount_sum_def)

lemma amount_sum_Nil: "amount_sum [] = 0"
  by (simp add: amount_sum_def)

lemma distinct_enumerated_types: "distinct enumerated_types"
  by (simp add: enumerated_types_def operating_types_def investing_types_def
      financing_types_def literal_defs)

lemma enumerated_split:
  "amount_sum (isin enumerated_types fs) =
     amount_sum (isin operating_types fs) + amount_sum (isin investing_types fs) +
     amount_sum (isin financing_types fs) + amount_sum (filter (\<lambda>f. flow_type f = COMMISSION) fs)"
proof (induction fs)
  case Nil
  show ?case by (simp add: isin_def amount_sum_Nil)
next
  case (Cons f fs)
  have d: "distinct enumerated_types" by (rule distinct_enumerated_types)
  show ?case using Cons d
    by (auto simp: isin_def amount_sum_Cons enumerated_types_def)
qed

lemma net_enumerated:
  "net (get_cash_flow_statement d acc s e) =
     amount_sum (isin enumerated_types (get_cash_flows d acc s e))"
  by (simp add: get_cash_flow_statement_def Let_def enumerated_split)
     (simp add: isin_def amount_sum_Nil)

lemma isin_drop:
  "flow_type r \<notin> set types \<Longrightarrow> isin types (xs @ r # ys) = isin types (xs @ ys)"
  by (simp add: isin_def)

lemma get_cash_flows_isin:
  "flow_type r \<notin> set types \<Longrightarrow>
     isin types (get_cash_flows (d\<lparr>cash_flows := xs @ r # ys\<rparr>) acc s e) =
     isin types (get_cash_flows (d\<lparr>cash_flows := xs @ ys\<rparr>) acc s e)"
  by (simp add: get_cash_flows_def isin_def)

lemma get_cash_flows_commission:
  "flow_type r \<noteq> COMMISSION \<Longrightarrow>
     filter (\<lambda>f. flow_type f = COMMISSION) (get_cash_flows (d\<lparr>cash_flows := xs @ r # ys\<rparr>) acc s e) =
     filter (\<lambda>f. flow_type f = COMMISSION) (get_cash_flows (d\<lparr>cash_flows := xs @ ys\<rparr>) acc s e)"
  by (simp add: get_cash_flows_def)

lemma unlisted_not_in:
  "flow_type r \<notin> set enumerated_types \<Longrightarrow>
     flow_type r \<notin> set operating_types \<and> flow_type r \<notin> set investing_types \<and>
     flow_type r \<notin> set financing_types \<and> flow_type r \<noteq> COMMISSION"
  by (simp add: enumerated_types_def)

text \<open>
  C10. A cash-flow row whose type is none of the enumerated ones changes nothing in the
  statement: the net is the sum of the amounts of the rows of enumerated type only, it is
  the net of the ledger without that row, and every bucket and the commission line are
  computed from the rows without it.
\<close>

theorem get_cash_flow_statement_unlisted_type:
  assumes "flow_type r \<notin> set enumerated_types"
  shows "let st = get_cash_flow_statement (d\<lparr>cash_flows := xs @ r # ys\<rparr>) acc s e;
             flows = get_cash_flows (d\<lparr>cash_flows := xs @ r # ys\<rparr>) acc s e;
             rest = get_cash_flows (d\<lparr>cash_flows := xs @ ys\<rparr>) acc s e
         in net st = amount_sum (isin enumerated_types flows) \<and>
            net st = amount_sum (isin enumerated_types rest) \<and>
            net st = net (get_cash_flow_statement (d\<lparr>cash_flows := xs @ ys\<rparr>) acc s e) \<and>
            (flows \<noteq> [] \<longrightarrow>
               operating st = Some \<lparr>detail = groupby_sum (isin operating_types rest),
                                    subtotal = amount_sum (isin operating_types rest)\<rparr> \<and>
               investing st = Some \<lparr>detail = groupby_sum (isin investing_types rest),
                                    subtotal = amount_sum (isin investing_types rest)\<rparr> \<and>
               financing st = Some \<lparr>detail = groupby_sum (isin financing_types rest),
                                    subtotal = amount_sum (isin financing_types rest)\<rparr> \<and>
               commission_total st =
                 Some (amount_sum (filter (\<lambda>f. flow_type f = COMMISSION) rest)))"
proof -
  let ?d1 = "d\<lparr>cash_flows := xs @ r # ys\<rparr>" and ?d0 = "d\<lparr>cash_flows := xs @ ys\<rparr>"
  note u = unlisted_not_in [OF assms]
  have e: "isin enumerated_types (get_cash_flows ?d1 acc s e) =
           isin enumerated_types (get_cash_flows ?d0 acc s e)"
    using assms by (rule get_cash_flows_isin)
  have o: "isin operating_types (get_cash_flows ?d1 acc s e) =
           isin operating_types (get_cash_flows ?d0 acc s e)"
    using u by (simp add: get_cash_flows_isin)
  have i: "isin investing_types (get_cash_flows ?d1 acc s e) =
           isin investing_types (get_cash_flows ?d0 acc s e)"
    using u by (simp add: get_cash_flows_isin)
  have f: "isin financing_types (get_cash_flows ?d1 acc s e) =
           isin financing_types (get_cash_flows ?d0 acc s e)"
    using u by (simp add: get_cash_flows_isin)
  have c: "filter (\<lambda>f. flow_type f = COMMISSION) (get_cash_flows ?d1 acc s e) =
           filter (\<lambda>f. flow_type f = COMMISSION) (get_cash_flows ?d0 acc s e)"
    using u by (simp add: get_cash_flows_commission)
  have n1: "net (get_cash_flow_statement ?d1 acc s e) =
            amount_sum (isin enumerated_types (get_cash_flows ?d1 acc s e))"
    by (rule net_enumerated)
  have n0: "net (get_cash_flow_statement ?d0 acc s e) =
            amount_sum (isin enumerated_types (get_cash_flows ?d0 acc s e))"
    by (rule net_enumerated)
  have b: "get_cash_flows ?d1 acc s e \<noteq> [] \<Longrightarrow>
      operating (get_cash_flow_statement ?d1 acc s e) =
        Some \<lparr>detail = groupby_sum (isin operating_types (get_cash_flows ?d0 acc s e)),
              subtotal = amount_sum (isin operating_types (get_cash_flows ?d0 acc s e))\<rparr> \<and>
      investing (get_cash_flow_statement ?d1 acc s e) =
        Some \<lparr>detail = groupby_sum (isin investing_types (get_cash_flows ?d0 acc s e)),
              subtotal = amount_sum (isin investing_types (get_cash_flows ?d0 acc s e))\<rparr> \<and>
      financing (get_cash_flow_statement ?d1 acc s e) =
        Some \<lparr>detail = groupby_sum (isin financing_types (get_cash_flows ?d0 acc s e)),
              subtotal = amount_sum (isin financing_types (get_cash_flows ?d0 acc s e))\<rparr> \<and>
      commission_total (get_cash_flow_statement ?d1 acc s e) =
        Some (amount_sum (filter (\<lambda>f. flow_type f = COMMISSION) (get_cash_flows ?d0 acc s e)))"
    unfolding o [symmetric] i [symmetric] f [symmetric] c [symmetric]
    by (simp add: get_cash_flow_statement_def Let_def)
  show ?thesis
    unfolding Let_def using n1 n0 e b by simp
qed

theorem get_cash_flow_statement_unlisted_type_witness:
  "flow_type (flow_row 2 OTHER 50) \<notin> set enumerated_types \<and>
   get_cash_flows (ledger_flows [flow_row 1 DEPOSIT 100, flow_row 2 OTHER 50,
      flow_row 3 STOCK_BUY (- 30)]) None None None \<noteq> [] \<and>
   net (get_cash_flow_statement (ledger_flows [flow_row 1 DEPOSIT 100, flow_row 2 OTHER 50,
      flow_row 3 STOCK_BUY (- 30)]) None None None) = 70 \<and>
   map_option subtotal (financing (get_cash_flow_statement (ledger_flows [flow_row 1 DEPOSIT 100,
      flow_row 2 OTHER 50, flow_row 3 STOCK_BUY (- 30)]) None None None)) = Some 100"
proof -
  have h: "flow_type (flow_row 2 OTHER 50) \<notin> set enumerated_types"
    by (simp add: flow_row_def OTHER_def enumerated_types_def operating_types_def
        investing_types_def financing_types_def literal_defs)
  show ?thesis
    using get_cash_flow_statement_unlisted_type [OF h,
        where d = "(ledger_flows [])\<lparr>last_flow_id := 3\<rparr>" and xs = "[flow_row 1 DEPOSIT 100]"
          and ys = "[flow_row 3 STOCK_BUY (- 30)]" and acc = None and s = None and e = None] h
    by (simp add: Let_def ledger_flows_def get_cash_flows_def truthy_str_def in_range_def
        get_cash_flow_statement_def isin_def amount_sum_def flow_row_def enumerated_types_def operating_types_def
        investing_types_def financing_types_def literal_defs OTHER_def)
qed


section \<open>Results about the account overview\<close>

lemmas overview_example_defs =
  calculate_account_overview_def get_accounts_def acct_def calculate_stock_summary_def
  get_transactions_def calculate_options_summary_def get_options_trades_def get_cash_flows_def
  truthy_str_def in_range_def flow_row_def no_prices_def options_row_def opt_trade_def
  Let_def literal_defs

text \<open>
  C3, as stated, fails where the base capital is negative: with a capital of 1000 and a
  withdrawal of 2000 the denominator is -1000, not zero, the total profit is 2000, and the
  reported ratio is 0, not 2000 / -1000.
\<close>

theorem pnl_ratio_negative_base_counterexample:
  "map_option pnl_ratio (calculate_account_overview ledger_withdrawn no_prices [65]) = Some 0 \<and>
   map_option total_pnl (calculate_account_overview ledger_withdrawn no_prices [65]) = Some 2000 \<and>
   map_option ov_total_capital (calculate_account_overview ledger_withdrawn no_prices [65]) = Some 1000 \<and>
   map_option net_cash_inflow (calculate_account_overview ledger_withdrawn no_prices [65]) = Some (- 2000) \<and>
   (1000::rat) + (- 2000) \<noteq> 0 \<and> (2000::rat) / (1000 + (- 2000)) * 100 \<noteq> 0"
  by (simp add: ledger_withdrawn_def overview_example_defs)

text \<open>
  C3, amended. The guard of the source is on the sign: where total capital plus net cash
  flow is positive the ratio is the total profit over it, as a percentage; where it is
  zero or negative the ratio is exactly 0.
\<close>

theorem pnl_ratio_guard:
  assumes "calculate_account_overview d lookup name = Some ov"
  shows "(0 < ov_total_capital ov + net_cash_inflow ov \<longrightarrow>
            pnl_ratio ov = total_pnl ov / (ov_total_capital ov + net_cash_inflow ov) * 100) \<and>
         (ov_total_capital ov + net_cash_inflow ov \<le> 0 \<longrightarrow> pnl_ratio ov = 0)"
  using assms
  by (auto simp: calculate_account_overview_def Let_def split: list.splits)

theorem pnl_ratio_guard_witness:
  "\<exists>ov. calculate_account_overview ledger_deposited no_prices [65] = Some ov \<and>
        0 < ov_total_capital ov + net_cash_inflow ov \<and> pnl_ratio ov = - 50"
proof -
  obtain ov where h: "calculate_account_overview ledger_deposited no_prices [65] = Some ov"
    by (simp add: ledger_deposited_def overview_example_defs)
  have v: "ov_total_capital ov = 1000 \<and> net_cash_inflow ov = 1000 \<and> total_pnl ov = - 1000"
    using h by (auto simp: ledger_deposited_def overview_example_defs)
  from pnl_ratio_guard [OF h] v have "pnl_ratio ov = - 50" by simp
  with h v show ?thesis by simp
qed

lemma locked_capital_sum:
  "sum_list (map locked_capital (filter (\<lambda>r. status (trade r) = OPEN) (map options_row xs))) =
   sum_list (map (\<lambda>x. strike_price x * of_int (contracts x) * 100)
     (filter (\<lambda>x. status x = OPEN \<and> option_type x = SELL_PUT) xs))"
  by (induction xs) (simp_all add: options_row_def Let_def)

lemma account_options:
  "name \<noteq> [] \<Longrightarrow>
   get_options_trades d (Some name) None None = filter (\<lambda>x. o_account_name x = name) (options_trades d)"
  by (simp add: get_options_trades_def truthy_str_def)

lemma sold_call_locks_nothing:
  "option_type x = SELL_CALL \<Longrightarrow> locked_capital (options_row x) = 0"
  by (simp add: options_row_def Let_def SELL_CALL_def SELL_PUT_def)

text \<open>
  C6. For an account that exists, the locked cash of the overview is the sum of strike x
  contracts x 100 over the option trades of that account that are open sold puts; the
  row of a sold call has locked capital 0. (An empty account name selects no account in
  the store's queries and is excluded.)
\<close>

theorem locked_cash_open_sold_puts:
  assumes "name \<noteq> []" and "calculate_account_overview d lookup name = Some ov"
  shows "locked_cash ov =
           sum_list (map (\<lambda>x. strike_price x * of_int (contracts x) * 100)
             (filter (\<lambda>x. o_account_name x = name \<and> status x = OPEN \<and> option_type x = SELL_PUT)
                (options_trades d))) \<and>
         (\<forall>r \<in> set (calculate_options_summary d (Some name)).
            option_type (trade r) = SELL_CALL \<longrightarrow> locked_capital r = 0)"
proof -
  have "locked_cash ov =
      sum_list (map locked_capital (filter (\<lambda>r. status (trade r) = OPEN)
        (map options_row (get_options_trades d (Some name) None None))))"
    using assms(2)
    by (auto simp: calculate_account_overview_def calculate_options_summary_def Let_def
        split: list.splits)
  also have "\<dots> = sum_list (map (\<lambda>x. strike_price x * of_int (contracts x) * 100)
      (filter (\<lambda>x. status x = OPEN \<and> option_type x = SELL_PUT)
         (filter (\<lambda>x. o_account_name x = name) (options_trades d))))"
    by (simp only: locked_capital_sum account_options [OF assms(1)])
  also have "\<dots> = sum_list (map (\<lambda>x. strike_price x * of_int (contracts x) * 100)
      (filter (\<lambda>x. o_account_name x = name \<and> status x = OPEN \<and> option_type x = SELL_PUT)
         (options_trades d)))"
    by (simp add: conj_commute conj_left_commute)
  finally have a: "locked_cash ov =
      sum_list (map (\<lambda>x. strike_price x * of_int (contracts x) * 100)
        (filter (\<lambda>x. o_account_name x = name \<and> status x = OPEN \<and> option_type x = SELL_PUT)
           (options_trades d)))" .
  have b: "\<forall>r \<in> set (calculate_options_summary d (Some name)).
      option_type (trade r) = SELL_CALL \<longrightarrow> locked_capital r = 0"
    by (auto simp: calculate_options_summary_def options_row_def Let_def SELL_CALL_def
        SELL_PUT_def)
  from a b show ?thesis by simp
qed

theorem locked_cash_open_sold_puts_witness:
  "\<exists>ov. [65] \<noteq> ([]::ustr) \<and> calculate_account_overview ledger_puts no_prices [65] = Some ov \<and>
        locked_cash ov = 10000 \<and>
        map locked_capital (calculate_options_summary ledger_puts (Some [65])) = [10000, 0, 0]"
proof -
  obtain ov where h: "calculate_account_overview ledger_puts no_prices [65] = Some ov"
    by (simp add: ledger_puts_def overview_example_defs)
  have n: "[65] \<noteq> ([]::ustr)" by simp
  have "locked_cash ov = 10000"
    using locked_cash_open_sold_puts [OF n h]
    by (simp add: ledger_puts_def opt_trade_def literal_defs)
  moreover have "map locked_capital (calculate_options_summary ledger_puts (Some [65])) = [10000, 0, 0]"
    by (simp add: ledger_puts_def overview_example_defs)
  ultimately show ?thesis using h by simp
qed

section \<open>Results about the stock summary\<close>






section \<open>Results about position targets\<close>








section \<open>Results about correlation\<close>







subsection \<open>Clusters\<close>

lemma enumerate_snd_in: "(j, x) \<in> set (enumerate n xs) \<Longrightarrow> x \<in> set xs"
  by (auto simp: in_set_enumerate_eq)

lemma absorb_keeps:
  assumes "sym2 \<in> cols" and "absorbed cols v st"
  shows "absorbed cols v (absorb m thr i sym1 (j, sym2) st)"
  using assms
  by (cases st) (auto simp: absorbed_def absorb_def split: option.splits)

lemma inner_loop_absorbed:
  assumes "sym1 \<in> set (m_columns m)" and "sym1 \<notin> v"
  shows "absorbed (set (m_columns m)) v
           (fold (absorb m thr i sym1) (enumerate 0 (m_columns m)) ([sym1], insert sym1 v))"
proof (rule fold_invariant [where Q = "\<lambda>p. snd p \<in> set (m_columns m)"])
  fix p assume "p \<in> set (enumerate 0 (m_columns m))"
  then have "(fst p, snd p) \<in> set (enumerate 0 (m_columns m))" by simp
  then show "snd p \<in> set (m_columns m)" by (rule enumerate_snd_in)
next
  show "absorbed (set (m_columns m)) v ([sym1], insert sym1 v)"
    using assms by (simp add: absorbed_def)
next
  fix p :: "nat \<times> ustr" and st
  assume "snd p \<in> set (m_columns m)" and "absorbed (set (m_columns m)) v st"
  then have "absorbed (set (m_columns m)) v (absorb m thr i sym1 (fst p, snd p) st)"
    by (rule absorb_keeps)
  then show "absorbed (set (m_columns m)) v (absorb m thr i sym1 p st)" by simp
qed

lemma grow_keeps:
  assumes "sym1 \<in> set (m_columns m)" and "clustered (set (m_columns m)) st"
  shows "clustered (set (m_columns m)) (grow m thr (i, sym1) st)"
proof (cases st)
  case (Pair clusters visited)
  show ?thesis
  proof (cases "sym1 \<in> visited")
    case True
    with assms Pair show ?thesis by (simp add: grow_def)
  next
    case False
    obtain cl vis where f:
      "fold (absorb m thr i sym1) (enumerate 0 (m_columns m)) ([sym1], insert sym1 visited) = (cl, vis)"
      by (cases "fold (absorb m thr i sym1) (enumerate 0 (m_columns m)) ([sym1], insert sym1 visited)")
    from inner_loop_absorbed [OF assms(1) False, of thr i] f
    have a: "distinct cl" "set cl \<inter> visited = {}" "vis = visited \<union> set cl"
      "set cl \<subseteq> set (m_columns m)"
      by (simp_all add: absorbed_def)
    from assms(2) Pair have c: "distinct (concat (map c_symbols clusters))"
      "set (concat (map c_symbols clusters)) \<subseteq> visited"
      "\<forall>c \<in> set clusters. 2 \<le> length (c_symbols c) \<and> c_size c = length (c_symbols c) \<and>
         set (c_symbols c) \<subseteq> set (m_columns m)"
      by (simp_all add: clustered_def)
    have g: "grow m thr (i, sym1) st =
        (if length cl > 1
         then (clusters @ [\<lparr>c_symbols = cl, c_avg_correlation = triu_mean (m_entry m) cl,
                             c_size = length cl\<rparr>], vis)
         else (clusters, vis))"
      using Pair False f by (simp add: grow_def)
    show ?thesis
    proof (cases "length cl > 1")
      case True
      have "set (concat (map c_symbols clusters)) \<inter> set cl = {}"
        using c(2) a(2) by blast
      with True a c g show ?thesis
        by (auto simp: clustered_def)
    next
      case False
      with a c g show ?thesis
        by (auto simp: clustered_def)
    qed
  qed
qed

lemma outer_loop_clustered:
  "clustered (set (m_columns m)) (fold (grow m thr) (enumerate 0 (m_columns m)) ([], {}))"
proof (rule fold_invariant [where Q = "\<lambda>p. snd p \<in> set (m_columns m)"])
  fix p assume "p \<in> set (enumerate 0 (m_columns m))"
  then have "(fst p, snd p) \<in> set (enumerate 0 (m_columns m))" by simp
  then show "snd p \<in> set (m_columns m)" by (rule enumerate_snd_in)
next
  show "clustered (set (m_columns m)) ([], {})"
    by (simp add: clustered_def)
next
  fix p :: "nat \<times> ustr" and st
  assume "snd p \<in> set (m_columns m)" and "clustered (set (m_columns m)) st"
  then have "clustered (set (m_columns m)) (grow m thr (fst p, snd p) st)"
    by (rule grow_keeps)
  then show "clustered (set (m_columns m)) (grow m thr p st)" by simp
qed

lemma distinct_concat_disjoint:
  "distinct (concat xss) \<Longrightarrow> i < j \<Longrightarrow> j < length xss \<Longrightarrow> set (xss ! i) \<inter> set (xss ! j) = {}"
proof (induction xss arbitrary: i j)
  case Nil
  then show ?case by simp
next
  case (Cons xs xss)
  show ?case
  proof (cases i)
    case 0
    with Cons.prems obtain k where "j = Suc k" "k < length xss" by (cases j) auto
    with 0 Cons.prems show ?thesis by (auto simp: disjoint_iff)
  next
    case (Suc i')
    with Cons.prems obtain k where "j = Suc k" "i' < k" "k < length xss" by (cases j) auto
    with Suc Cons show ?thesis by simp
  qed
qed

text \<open>
  C9. The clusters that identify_correlation_clusters returns share no symbol: no symbol
  occurs twice in all of them taken together, so the clusters are pairwise disjoint and
  no cluster repeats a symbol; each has at least 2 members, its size is the number of its
  members, and every member is a column of the matrix.
\<close>

theorem clusters_disjoint:
  "distinct (concat (map c_symbols (identify_correlation_clusters corr thr))) \<and>
   (\<forall>c \<in> set (identify_correlation_clusters corr thr).
      distinct (c_symbols c) \<and> 2 \<le> length (c_symbols c) \<and> 2 \<le> card (set (c_symbols c)) \<and>
      c_size c = length (c_symbols c) \<and>
      (\<forall>m. corr = Some m \<longrightarrow> set (c_symbols c) \<subseteq> set (m_columns m))) \<and>
   (\<forall>i j. i < j \<and> j < length (identify_correlation_clusters corr thr) \<longrightarrow>
      set (c_symbols (identify_correlation_clusters corr thr ! i)) \<inter>
      set (c_symbols (identify_correlation_clusters corr thr ! j)) = {})"
proof (cases corr)
  case None
  then show ?thesis by (simp add: identify_correlation_clusters_def)
next
  case (Some m)
  let ?cs = "identify_correlation_clusters corr thr"
  obtain visited where f: "fold (grow m thr) (enumerate 0 (m_columns m)) ([], {}) = (?cs, visited)"
    using Some
    by (cases "fold (grow m thr) (enumerate 0 (m_columns m)) ([], {})")
       (simp add: identify_correlation_clusters_def)
  from outer_loop_clustered [of m thr] f
  have d: "distinct (concat (map c_symbols ?cs))"
    and a: "\<forall>c \<in> set ?cs. 2 \<le> length (c_symbols c) \<and> c_size c = length (c_symbols c) \<and>
              set (c_symbols c) \<subseteq> set (m_columns m)"
    by (simp_all add: clustered_def)
  have e: "\<forall>c \<in> set ?cs. distinct (c_symbols c)"
    using d by (auto simp: distinct_concat_iff)
  have c2: "\<forall>c \<in> set ?cs. 2 \<le> card (set (c_symbols c))"
    using e a by (simp add: distinct_card)
  have p: "\<forall>i j. i < j \<and> j < length ?cs \<longrightarrow>
      set (c_symbols (?cs ! i)) \<inter> set (c_symbols (?cs ! j)) = {}"
  proof (intro allI impI)
    fix i j assume ij: "i < j \<and> j < length ?cs"
    then have "set (map c_symbols ?cs ! i) \<inter> set (map c_symbols ?cs ! j) = {}"
      using d by (intro distinct_concat_disjoint) simp_all
    with ij show "set (c_symbols (?cs ! i)) \<inter> set (c_symbols (?cs ! j)) = {}" by simp
  qed
  from d a e c2 p Some show ?thesis by simp
qed

theorem clusters_disjoint_witness:
  "map c_symbols (identify_correlation_clusters (Some corr3) (7 / 10)) = [[[65], [66]]] \<and>
   distinct (concat (map c_symbols (identify_correlation_clusters (Some corr3) (7 / 10)))) \<and>
   set [[65], [66]] \<subseteq> set (m_columns corr3)"
proof -
  have v: "map c_symbols (identify_correlation_clusters (Some corr3) (7 / 10)) = [[[65], [66]]]"
    by (simp add: identify_correlation_clusters_def corr3_def grow_def absorb_def
        enumerate_eq_zip upt_rec Let_def)
  from clusters_disjoint [of "Some corr3" "7 / 10"] v show ?thesis
    by (simp add: corr3_def)
qed

subsection \<open>Diversification score\<close>

lemma pairs_members: "(a, b) \<in> set (pairs xs) \<Longrightarrow> a \<in> set xs \<and> b \<in> set xs"
  by (induction xs) auto

lemma accumulate_returns:
  "\<forall>(a, b) \<in> set ps. a \<in> set (m_columns m) \<and> b \<in> set (m_columns m) \<Longrightarrow>
     \<exists>r. accumulate m wt ps acc = Inr r"
proof (induction ps arbitrary: acc)
  case Nil
  show ?case by simp
next
  case (Cons p ps)
  obtain a b where p: "p = (a, b)" by (cases p)
  obtain wc tw where acc: "acc = (wc, tw)" by (cases acc)
  from Cons.prems p have l: "loc m a b = Inr (m_entry m a b)" by (simp add: loc_def)
  from Cons.prems have "\<forall>(a, b) \<in> set ps. a \<in> set (m_columns m) \<and> b \<in> set (m_columns m)"
    by simp
  from Cons.IH [OF this] show ?case
    unfolding p acc by (simp add: l Let_def)
qed

lemma effective_n_returns:
  assumes "corr = None \<or> (\<exists>m. corr = Some m \<and> set holdings \<subseteq> set (m_columns m))"
  shows "\<exists>r. calculate_effective_n holdings corr weights = Inr r"
proof (cases corr)
  case None
  then show ?thesis by (simp add: calculate_effective_n_def Let_def)
next
  case (Some m)
  with assms have sub: "set holdings \<subseteq> set (m_columns m)" by simp
  have "\<forall>(a, b) \<in> set (pairs holdings). a \<in> set (m_columns m) \<and> b \<in> set (m_columns m)"
    using sub by (auto dest: pairs_members)
  from accumulate_returns [OF this]
  have ok: "\<And>wt acc e. accumulate m wt (pairs holdings) acc \<noteq> Inl e"
    by (metis Inl_Inr_False)
  show ?thesis using Some ok
    by (auto simp: calculate_effective_n_def Let_def split: sum.splits prod.splits)
qed

lemma count_score_range: "5 \<le> count_score_of n \<and> count_score_of n \<le> 25"
  by (simp add: count_score_of_def)

lemma corr_score_range: "5 \<le> corr_score_of a \<and> corr_score_of a \<le> 35"
  by (simp add: corr_score_of_def split: option.splits)

lemma effective_score_range: "5 \<le> effective_score_of x \<and> effective_score_of x \<le> 20"
  by (simp add: effective_score_of_def)

lemma sector_score_range: "5 \<le> sector_score_of b u \<and> sector_score_of b u \<le> 20"
  by (simp add: sector_score_of_def)

lemma diversification_score_bounds:
  assumes "calculate_diversification_score holdings corr weights sector_data = Inr r"
  shows "0 \<le> score r \<and> score r \<le> 100"
proof (cases "holdings = []")
  case True
  with assms show ?thesis by (auto simp: calculate_diversification_score_def)
next
  case False
  then have n: "length holdings \<noteq> 0" by simp
  from assms n obtain a x b u where
    "score r = count_score_of (length holdings) + corr_score_of a + effective_score_of x +
               sector_score_of b u"
    unfolding calculate_diversification_score_def Let_def
    by (auto split: sum.splits)
  with count_score_range [of "length holdings"] corr_score_range [of a]
    effective_score_range [of x] sector_score_range [of b u]
  show ?thesis by linarith
qed

lemma diversification_score_returns:
  assumes "corr = None \<or> (\<exists>m. corr = Some m \<and> set holdings \<subseteq> set (m_columns m))"
  shows "\<exists>r. calculate_diversification_score holdings corr weights sector_data = Inr r"
proof -
  from effective_n_returns [OF assms] obtain e where
    "calculate_effective_n holdings corr weights = Inr e" by blast
  then show ?thesis
    by (simp add: calculate_diversification_score_def Let_def)
qed

lemma diversification_score_empty:
  "calculate_diversification_score [] corr weights sector_data =
     Inr \<lparr>score = 0, rating = NO_HOLDINGS, details = None, recommendations = [AddInvestments]\<rparr>"
  by (simp add: calculate_diversification_score_def)

text \<open>
  C8. With three holdings and a correlation matrix that has columns for two of them only
  (the third has no return data, so calculate_correlation_matrix leaves it out), the
  weighted-correlation loop of calculate_effective_n looks up a label the matrix does not
  have: the call raises KeyError and returns no score.
\<close>

theorem diversification_score_missing_label:
  "calculate_diversification_score [[65], [66], [67]] (Some corr2) None (Some []) = Inl KeyError"
  by (simp add: calculate_diversification_score_def calculate_effective_n_def corr2_def
      loc_def Let_def)

end
